theory Spec2Isabelle
  imports Complex_Main "HOL-Library.Monad_Syntax"
begin

section \<open>The playback controller of the replay client\<close>

text \<open>
  The client's \<^verbatim>\<open>runMatch\<close> keeps five local variables that the intent callbacks and the
  animation-frame callback \<^verbatim>\<open>loop\<close> close over. They are gathered in one record.
  JavaScript numbers are modelled as real numbers (no rounding, no NaN); turns reported by
  the playback engine are integers.
\<close>

record playback =
  goalUPS :: real
  rewinding :: bool
  interpGameTime :: real
  lastTime :: "real option"
  externalSeek :: bool

text \<open>The values \<^verbatim>\<open>runMatch\<close> gives the variables before the first frame.\<close>

definition init :: playback where
  "init = \<lparr>goalUPS = 10, rewinding = False, interpGameTime = 0,
           lastTime = None, externalSeek = False\<rparr>"

subsection \<open>Intent callbacks\<close>

definition onTogglePause :: "playback \<Rightarrow> playback" where
  "onTogglePause s = s\<lparr>goalUPS := (if goalUPS s = 0 then 10 else 0), rewinding := False\<rparr>"

definition onToggleForward :: "playback \<Rightarrow> playback" where
  "onToggleForward s = s\<lparr>goalUPS := (if goalUPS s = 300 then 10 else 300), rewinding := False\<rparr>"

definition onToggleRewind :: "playback \<Rightarrow> playback" where
  "onToggleRewind s =
     s\<lparr>goalUPS := (if goalUPS s = - 100 then 10 else - 100), rewinding := \<not> rewinding s\<rparr>"

text \<open>
  \<^verbatim>\<open>onSeek\<close> also calls \<^verbatim>\<open>match.seek(turn)\<close> on the engine; the second component is the
  argument of that call. Both callers pass an integer (\<^verbatim>\<open>restart\<close> passes 0, the timeline
  handler a \<^verbatim>\<open>Math.floor\<close>).
\<close>

definition onSeek :: "int \<Rightarrow> playback \<Rightarrow> playback \<times> int" where
  "onSeek t s = (s\<lparr>externalSeek := True, interpGameTime := of_int t\<rparr>, t)"

text \<open>
  The mousedown handler of the timeline canvas: \<^verbatim>\<open>farthest\<close> is \<^verbatim>\<open>match['_farthest'].turn\<close>,
  \<^verbatim>\<open>offsetX\<close> the pointer position and \<^verbatim>\<open>maxWidth\<close> the canvas width (400 in
  \<^verbatim>\<open>Controls.timeline\<close>, never zero).
\<close>

definition timelineMouseDown :: "int \<Rightarrow> real \<Rightarrow> real \<Rightarrow> playback \<Rightarrow> playback \<times> int" where
  "timelineMouseDown farthest offsetX maxWidth s =
     (let t = \<lfloor>of_int farthest * offsetX / maxWidth\<rfloor>
      in (s\<lparr>externalSeek := True, interpGameTime := of_int t\<rparr>, t))"

text \<open>
  \<^verbatim>\<open>Controls.pause\<close>, \<^verbatim>\<open>Controls.forward\<close>, \<^verbatim>\<open>Controls.rewind\<close> and \<^verbatim>\<open>Controls.restart\<close>
  call the callback first; what follows only switches button images and leaves the
  playback variables alone.
\<close>

definition Controls_pause :: "playback \<Rightarrow> playback" where
  "Controls_pause s = onTogglePause s"

definition Controls_forward :: "playback \<Rightarrow> playback" where
  "Controls_forward s = onToggleForward s"

definition Controls_rewind :: "playback \<Rightarrow> playback" where
  "Controls_rewind s = onToggleRewind s"

definition Controls_restart :: "playback \<Rightarrow> playback \<times> int" where
  "Controls_restart s = onSeek 0 s"

subsection \<open>The animation-frame callback\<close>

text \<open>
  \<^verbatim>\<open>x | 0\<close> is ECMAScript's ToInt32: truncate toward zero, reduce modulo \<open>2^32\<close>, read the
  result as a signed 32-bit integer.
\<close>

definition toInt32 :: "real \<Rightarrow> int" where
  "toInt32 x =
     (let n = (if x < 0 then - \<lfloor>- x\<rfloor> else \<lfloor>x\<rfloor>);
          m = n mod 2 ^ 32
      in if 2 ^ 31 \<le> m then m - 2 ^ 32 else m)"

text \<open>
  What one call of \<^verbatim>\<open>loop\<close> reads from its collaborators: the timestamp, the engine's
  \<^verbatim>\<open>match.current.turn\<close> and \<^verbatim>\<open>match.seekTo\<close> when the branch is chosen, and, after
  \<^verbatim>\<open>match.compute(5)\<close>, the flag \<^verbatim>\<open>conf.interpolate\<close>, \<^verbatim>\<open>match.current.turn\<close>,
  \<^verbatim>\<open>match.deltas.length\<close> and \<^verbatim>\<open>rendersPerSecond.tps\<close>.
\<close>

record tick_in =
  curTime :: real
  turn :: int
  seekTo :: int
  confInterpolate :: bool
  turnRender :: int
  deltasLength :: int
  rendersTps :: real

text \<open>The renderer is called with a next step and a lerp fraction, or without them.\<close>

datatype frame_request = Exact | Interpolated real

text \<open>
  What one call of \<^verbatim>\<open>loop\<close> asks of its collaborators: the argument of \<^verbatim>\<open>match.seek\<close> when
  it is called, the amount \<^verbatim>\<open>delta\<close> fed to \<^verbatim>\<open>updatesPerSecond\<close>, and the frame rendered.
  The display calls (\<^verbatim>\<open>controls.setTime\<close>, the statistics table of one of the two clients)
  read the same values and write none of the playback variables; they are left out. The
  two clients have the same \<^verbatim>\<open>loop\<close> and the same callbacks apart from that.
\<close>

record tick_out =
  seekCall :: "int option"
  delta :: real
  frame :: frame_request

text \<open>
  The first part of \<^verbatim>\<open>loop\<close>, the chain of \<^verbatim>\<open>if\<close>/\<^verbatim>\<open>else if\<close>: it returns the variables,
  the engine seek requested and \<^verbatim>\<open>delta\<close>.
\<close>

definition advance :: "playback \<Rightarrow> tick_in \<Rightarrow> playback \<times> int option \<times> real" where
  "advance s i =
     (case lastTime s of
        None \<Rightarrow> (s, None, 0)
      | Some lt \<Rightarrow>
          if externalSeek s then
            (if turn i = seekTo i then (s\<lparr>externalSeek := False\<rparr>, None, 0)
             else (s, None, 0))
          else if rewinding s \<and> turn i \<le> 10 then
            (Controls_pause (Controls_rewind s), None, 0)
          else if \<bar>interpGameTime s - of_int (turn i)\<bar> < 10 then
            (let d = goalUPS s * (curTime i - lt) / 1000;
                 t = interpGameTime s + d
             in (s\<lparr>interpGameTime := t\<rparr>, Some (toInt32 t), d))
          else (s, None, 0))"

text \<open>
  The second part: the interpolation condition and the lerp fraction, read after
  \<^verbatim>\<open>lastTime = curTime\<close>.
\<close>

definition render :: "playback \<Rightarrow> tick_in \<Rightarrow> frame_request" where
  "render s i =
     (if confInterpolate i \<and> turnRender i + 1 < deltasLength i \<and> goalUPS s < rendersTps i
      then Interpolated (min (interpGameTime s - of_int (turnRender i)) 1)
      else Exact)"

definition loop :: "playback \<Rightarrow> tick_in \<Rightarrow> playback \<times> tick_out" where
  "loop s i =
     (case advance s i of
        (s1, sk, d) \<Rightarrow>
          (let s2 = s1\<lparr>lastTime := Some (curTime i)\<rparr>
           in (s2, \<lparr>seekCall = sk, delta = d, frame = render s2 i\<rparr>)))"

subsection \<open>Runs of the controller\<close>

datatype event =
    TogglePause
  | ToggleForward
  | ToggleRewind
  | Seek int
  | Restart
  | MouseDown int real real
  | Tick tick_in

fun step :: "playback \<Rightarrow> event \<Rightarrow> playback" where
  "step s TogglePause = Controls_pause s"
| "step s ToggleForward = Controls_forward s"
| "step s ToggleRewind = Controls_rewind s"
| "step s (Seek t) = fst (onSeek t s)"
| "step s Restart = fst (Controls_restart s)"
| "step s (MouseDown farthest offsetX maxWidth) = fst (timelineMouseDown farthest offsetX maxWidth s)"
| "step s (Tick i) = fst (loop s i)"

definition run :: "playback \<Rightarrow> event list \<Rightarrow> playback" where
  "run s evs = foldl step s evs"

text \<open>Consecutive calls of \<^verbatim>\<open>loop\<close> with no intent in between.\<close>

definition ticks :: "playback \<Rightarrow> tick_in list \<Rightarrow> playback" where
  "ticks s ins = foldl (\<lambda>s i. fst (loop s i)) s ins"

text \<open>The rewinding flag is set exactly when the goal speed is the rewind rate.\<close>

definition rewind_inv :: "playback \<Rightarrow> bool" where
  "rewind_inv s = (rewinding s = (goalUPS s = - 100))"

section \<open>The configuration defaults\<close>

text \<open>
  \<^verbatim>\<open>defaults(supplied?: any)\<close> takes any JavaScript value. The values that matter to it:
  the falsy ones (\<^verbatim>\<open>undefined\<close>, \<^verbatim>\<open>null\<close>, \<^verbatim>\<open>false\<close>, \<^verbatim>\<open>0\<close>, \<^verbatim>\<open>NaN\<close>, the empty
  string), the other primitives, and objects, given by their own properties (the first
  binding of a key is the property's value).
\<close>

datatype jsval =
    JUndefined
  | JNull
  | JBool bool
  | JNum real
  | JNaN
  | JStr string
  | JObj "(string \<times> jsval) list"

fun truthy :: "jsval \<Rightarrow> bool" where
  "truthy JUndefined = False"
| "truthy JNull = False"
| "truthy (JBool b) = b"
| "truthy (JNum x) = (x \<noteq> 0)"
| "truthy JNaN = False"
| "truthy (JStr s) = (s \<noteq> [])"
| "truthy (JObj ps) = True"

text \<open>\<^verbatim>\<open>a || b\<close>\<close>

definition js_or :: "jsval \<Rightarrow> jsval \<Rightarrow> jsval" where
  "js_or a b = (if truthy a then a else b)"

text \<open>
  \<^verbatim>\<open>v.k\<close>: a TypeError (\<open>None\<close>) on \<^verbatim>\<open>undefined\<close> and \<^verbatim>\<open>null\<close>; \<^verbatim>\<open>undefined\<close> for a
  property that an object does not have, and for the option names read here on a
  primitive.
\<close>

fun getprop :: "jsval \<Rightarrow> string \<Rightarrow> jsval option" where
  "getprop JUndefined k = None"
| "getprop JNull k = None"
| "getprop (JObj ps) k = Some (case map_of ps k of Some v \<Rightarrow> v | None \<Rightarrow> JUndefined)"
| "getprop v k = Some JUndefined"

text \<open>
  The \<^verbatim>\<open>Config\<close> interface of \<^verbatim>\<open>src/config.ts\<close>, and the longer one of the later version
  of the file. A field holds whatever value \<^verbatim>\<open>||\<close> returned.
\<close>

record config =
  gameVersion :: jsval
  fullscreen :: jsval
  width :: jsval
  height :: jsval
  defaultTPS :: jsval

record config_full = config +
  websocketURL :: jsval
  pollEvery :: jsval
  interpolate :: jsval
  healthBars :: jsval
  circleBots :: jsval
  indicators :: jsval
  inGameMode :: jsval
  inHelpMode :: jsval

text \<open>\<^verbatim>\<open>defaults\<close> of \<^verbatim>\<open>src/config.ts\<close>.\<close>

definition defaults :: "jsval \<Rightarrow> config option" where
  "defaults supplied0 =
     (let supplied = js_or supplied0 (JObj []) in
      do {
        gv \<leftarrow> getprop supplied ''gameVersion'';
        fs \<leftarrow> getprop supplied ''fullscreen'';
        w \<leftarrow> getprop supplied ''width'';
        h \<leftarrow> getprop supplied ''height'';
        tps \<leftarrow> getprop supplied ''defaultTPS'';
        Some \<lparr>gameVersion = js_or gv (JStr ''ANY''),
              fullscreen = js_or fs (JBool False),
              width = js_or w (JNum 600),
              height = js_or h (JNum 600),
              defaultTPS = js_or tps (JNum 20)\<rparr>
      })"

text \<open>\<^verbatim>\<open>defaults\<close> of the version with thirteen fields.\<close>

definition defaults_full :: "jsval \<Rightarrow> config_full option" where
  "defaults_full supplied0 =
     (let supplied = js_or supplied0 (JObj []) in
      do {
        gv \<leftarrow> getprop supplied ''gameVersion'';
        fs \<leftarrow> getprop supplied ''fullscreen'';
        w \<leftarrow> getprop supplied ''width'';
        h \<leftarrow> getprop supplied ''height'';
        tps \<leftarrow> getprop supplied ''defaultTPS'';
        url \<leftarrow> getprop supplied ''websocketURL'';
        pe \<leftarrow> getprop supplied ''pollEvery'';
        Some \<lparr>gameVersion = js_or gv (JStr ''ANY''),
              fullscreen = js_or fs (JBool False),
              width = js_or w (JNum 600),
              height = js_or h (JNum 600),
              defaultTPS = js_or tps (JNum 20),
              websocketURL = js_or url JNull,
              pollEvery = js_or pe (JNum 500),
              interpolate = JBool True,
              healthBars = JBool True,
              circleBots = JBool False,
              indicators = JBool True,
              inGameMode = JBool True,
              inHelpMode = JBool False\<rparr>
      })"

section \<open>Helper lemmas\<close>

lemmas intent_defs =
  onTogglePause_def onToggleForward_def onToggleRewind_def onSeek_def timelineMouseDown_def
  Controls_pause_def Controls_forward_def Controls_rewind_def Controls_restart_def

lemmas loop_defs = loop_def advance_def render_def Let_def

lemma rewind_inv_step: "rewind_inv s \<Longrightarrow> rewind_inv (step s e)"
  by (cases e)
     (auto simp: rewind_inv_def intent_defs loop_def advance_def Let_def
           split: option.splits if_splits)

lemma rewind_inv_foldl: "rewind_inv s \<Longrightarrow> rewind_inv (foldl step s evs)"
  by (induction evs arbitrary: s) (simp_all add: rewind_inv_step)

lemma rewind_inv_init: "rewind_inv init"
  by (simp add: rewind_inv_def init_def)

lemma wrap_nonneg: "0 \<le> n \<Longrightarrow> n < 2147483648 \<Longrightarrow> n mod 4294967296 = n" for n :: int
  by simp

lemma wrap_neg:
  "- 2147483648 \<le> n \<Longrightarrow> n < 0 \<Longrightarrow> n mod 4294967296 = n + 4294967296" for n :: int
proof -
  assume a: "- 2147483648 \<le> n" "n < 0"
  have "(n + 4294967296) mod 4294967296 = n + 4294967296"
    using a by (intro mod_pos_pos_trivial) simp_all
  then show ?thesis by simp
qed

lemma signed_of_wrap:
  "- 2147483648 \<le> n \<Longrightarrow> n < 2147483648 \<Longrightarrow>
   (let m = n mod 2 ^ 32 in if 2 ^ 31 \<le> m then m - 2 ^ 32 else m) = n" for n :: int
proof (cases "0 \<le> n")
  case True
  assume "n < 2147483648"
  with True have "n mod 4294967296 = n" by (rule wrap_nonneg)
  with \<open>n < 2147483648\<close> show ?thesis by (simp add: Let_def)
next
  case False
  assume "- 2147483648 \<le> n"
  with False have "n mod 4294967296 = n + 4294967296" by (intro wrap_neg) simp_all
  with \<open>- 2147483648 \<le> n\<close> show ?thesis by (simp add: Let_def)
qed

text \<open>In the signed 32-bit range \<^verbatim>\<open>x | 0\<close> rounds toward zero.\<close>

lemma toInt32_nonneg: "0 \<le> x \<Longrightarrow> x < 2 ^ 31 \<Longrightarrow> toInt32 x = \<lfloor>x\<rfloor>"
proof -
  assume a: "0 \<le> x" "x < 2 ^ 31"
  have lo: "- 2147483648 \<le> \<lfloor>x\<rfloor>" using a(1) by (simp add: le_floor_iff)
  have hi: "\<lfloor>x\<rfloor> < 2147483648" using a(2) by (simp add: floor_less_iff)
  have "toInt32 x = (let m = \<lfloor>x\<rfloor> mod 2 ^ 32 in if 2 ^ 31 \<le> m then m - 2 ^ 32 else m)"
    using a(1) by (simp add: toInt32_def)
  also have "\<dots> = \<lfloor>x\<rfloor>" using lo hi by (rule signed_of_wrap)
  finally show ?thesis .
qed

lemma toInt32_neg: "- (2 ^ 31) \<le> x \<Longrightarrow> x < 0 \<Longrightarrow> toInt32 x = \<lceil>x\<rceil>"
proof -
  assume a: "- (2 ^ 31) \<le> x" "x < 0"
  have lo: "- 2147483648 \<le> \<lceil>x\<rceil>" using a(1) by (simp add: le_ceiling_iff)
  have hi: "\<lceil>x\<rceil> < 2147483648" using a(2) by (simp add: ceiling_less_iff)
  have "toInt32 x = (let m = \<lceil>x\<rceil> mod 2 ^ 32 in if 2 ^ 31 \<le> m then m - 2 ^ 32 else m)"
    using a(2) by (simp add: toInt32_def ceiling_def)
  also have "\<dots> = \<lceil>x\<rceil>" using lo hi by (rule signed_of_wrap)
  finally show ?thesis .
qed

text \<open>
  A tick clears the seek flag exactly when a seek is in flight, a previous tick is recorded
  and the engine's current turn is its seek target; it never sets the flag. During a
  seek it leaves the simulated time, the goal speed and the rewinding flag alone.
\<close>

lemma ticks_snoc: "ticks s (pre @ [j]) = fst (loop (ticks s pre) j)"
  by (simp add: ticks_def)

lemma loop_flag:
  "externalSeek (fst (loop s i))
     = (externalSeek s \<and> (lastTime s = None \<or> turn i \<noteq> seekTo i))"
  by (auto simp: loop_defs intent_defs split: option.splits)

lemma loop_frozen:
  "externalSeek s \<Longrightarrow>
   interpGameTime (fst (loop s i)) = interpGameTime s
   \<and> goalUPS (fst (loop s i)) = goalUPS s
   \<and> rewinding (fst (loop s i)) = rewinding s"
  by (auto simp: loop_defs split: option.splits)

lemma loop_lastTime: "lastTime (fst (loop s i)) = Some (curTime i)"
  by (simp add: loop_def Let_def split: prod.splits)

lemma ticks_lastTime:
  "lastTime (ticks s ins) = (if ins = [] then lastTime s else Some (curTime (last ins)))"
  by (induction ins rule: rev_induct) (simp_all add: ticks_def loop_lastTime)

lemma all_less_snoc:
  "(\<forall>k < length (xs @ [x]). P k ((xs @ [x]) ! k))
     = ((\<forall>k < length xs. P k (xs ! k)) \<and> P (length xs) x)"
  by (auto simp: nth_append less_Suc_eq)

lemma seek_run:
  assumes "externalSeek s0"
  shows "externalSeek (ticks s0 ins)
           = (\<forall>k < length ins. (k = 0 \<and> lastTime s0 = None)
                 \<or> turn (ins ! k) \<noteq> seekTo (ins ! k))
         \<and> (externalSeek (ticks s0 ins) \<longrightarrow>
              interpGameTime (ticks s0 ins) = interpGameTime s0
              \<and> goalUPS (ticks s0 ins) = goalUPS s0
              \<and> rewinding (ticks s0 ins) = rewinding s0)"
proof (induction ins rule: rev_induct)
  case Nil
  then show ?case using assms by (simp add: ticks_def)
next
  case (snoc j ins)
  let ?s = "ticks s0 ins"
  have st: "ticks s0 (ins @ [j]) = fst (loop ?s j)" by (rule ticks_snoc)
  have lt: "(lastTime ?s = None) = (ins = [] \<and> lastTime s0 = None)"
    by (simp add: ticks_lastTime)
  have fl: "externalSeek (ticks s0 (ins @ [j]))
      = (externalSeek ?s \<and> ((length ins = 0 \<and> lastTime s0 = None) \<or> turn j \<noteq> seekTo j))"
    unfolding st loop_flag lt by simp
  have "externalSeek (ticks s0 (ins @ [j]))
      = (\<forall>k < length (ins @ [j]). (k = 0 \<and> lastTime s0 = None)
            \<or> turn ((ins @ [j]) ! k) \<noteq> seekTo ((ins @ [j]) ! k))"
    unfolding fl
      all_less_snoc [where P = "\<lambda>k i. (k = 0 \<and> lastTime s0 = None) \<or> turn i \<noteq> seekTo i"
        and xs = ins and x = j]
    using snoc.IH by simp
  moreover have "interpGameTime (ticks s0 (ins @ [j])) = interpGameTime s0
              \<and> goalUPS (ticks s0 (ins @ [j])) = goalUPS s0
              \<and> rewinding (ticks s0 (ins @ [j])) = rewinding s0"
    if "externalSeek (ticks s0 (ins @ [j]))"
  proof -
    from that have e: "externalSeek ?s" unfolding fl by simp
    from loop_frozen [OF e, of j] snoc.IH e show ?thesis unfolding st by simp
  qed
  ultimately show ?case by blast
qed

text \<open>After \<^verbatim>\<open>supplied || {}\<close> a property read never throws.\<close>

lemma getprop_coerced: "\<exists>v. getprop (js_or supplied (JObj [])) k = Some v"
  by (cases supplied) (simp_all add: js_or_def)

section \<open>The claims\<close>

subsection \<open>C1: the automatic stop of a rewind\<close>

text \<open>
  C1, as stated, fails. The state below is reached from the initial one by a first frame
  and the rewind toggle; the engine is at turn 5. The next tick calls \<^verbatim>\<open>controls.rewind()\<close>,
  which sets the goal speed to 10, and then \<^verbatim>\<open>controls.pause()\<close>, which finds it non-zero
  and sets it to 0: the goal speed is not the default forward rate.
\<close>

theorem rewind_autostop_counterexample:
  "rewinding (run init [Tick \<lparr>curTime = 0, turn = 0, seekTo = 0, confInterpolate = True,
                               turnRender = 0, deltasLength = 100, rendersTps = 60\<rparr>, ToggleRewind])
   \<and> \<not> externalSeek (run init [Tick \<lparr>curTime = 0, turn = 0, seekTo = 0, confInterpolate = True,
                               turnRender = 0, deltasLength = 100, rendersTps = 60\<rparr>, ToggleRewind])
   \<and> lastTime (run init [Tick \<lparr>curTime = 0, turn = 0, seekTo = 0, confInterpolate = True,
                               turnRender = 0, deltasLength = 100, rendersTps = 60\<rparr>, ToggleRewind])
       = Some 0
   \<and> goalUPS (fst (loop
        (run init [Tick \<lparr>curTime = 0, turn = 0, seekTo = 0, confInterpolate = True,
                         turnRender = 0, deltasLength = 100, rendersTps = 60\<rparr>, ToggleRewind])
        \<lparr>curTime = 16, turn = 5, seekTo = 0, confInterpolate = True,
         turnRender = 5, deltasLength = 100, rendersTps = 60\<rparr>)) \<noteq> 10"
  by (simp add: run_def init_def intent_defs loop_defs)

text \<open>
  C1 (amended): in every state in which \<open>rewinding\<close> is true, no seek is in flight and a
  previous tick is recorded, a tick at which the engine's current turn is at most 10
  leaves the goal speed at 0 (paused) and \<open>rewinding\<close> false; it does not move the
  simulated time and asks the engine for no seek.
\<close>

theorem rewind_autostop:
  assumes "rewinding s" and "turn i \<le> 10" and "\<not> externalSeek s" and "lastTime s \<noteq> None"
  shows "goalUPS (fst (loop s i)) = 0 \<and> \<not> rewinding (fst (loop s i))
         \<and> interpGameTime (fst (loop s i)) = interpGameTime s
         \<and> seekCall (snd (loop s i)) = None"
  using assms by (auto simp: loop_defs intent_defs split: option.splits)

theorem rewind_autostop_witness:
  "rewinding \<lparr>goalUPS = - 100, rewinding = True, interpGameTime = 5,
              lastTime = Some 0, externalSeek = False\<rparr>
   \<and> goalUPS (fst (loop \<lparr>goalUPS = - 100, rewinding = True, interpGameTime = 5,
                         lastTime = Some 0, externalSeek = False\<rparr>
                        \<lparr>curTime = 16, turn = 5, seekTo = 0, confInterpolate = True,
                         turnRender = 5, deltasLength = 100, rendersTps = 60\<rparr>)) = 0
   \<and> \<not> rewinding (fst (loop \<lparr>goalUPS = - 100, rewinding = True, interpGameTime = 5,
                         lastTime = Some 0, externalSeek = False\<rparr>
                        \<lparr>curTime = 16, turn = 5, seekTo = 0, confInterpolate = True,
                         turnRender = 5, deltasLength = 100, rendersTps = 60\<rparr>))"
  using rewind_autostop [of "\<lparr>goalUPS = - 100, rewinding = True, interpGameTime = 5,
                       lastTime = Some 0, externalSeek = False\<rparr>"
                     "\<lparr>curTime = 16, turn = 5, seekTo = 0, confInterpolate = True,
                       turnRender = 5, deltasLength = 100, rendersTps = 60\<rparr>"]
  by simp

subsection \<open>C2: the advance of the simulated time\<close>

text \<open>
  C2, as stated, fails: with no seek in flight, a previous tick recorded and no drift,
  the branch that stops a rewind comes first when \<open>rewinding\<close> is true and the engine's turn
  is at most 10, and that branch does not advance the simulated time.
\<close>

theorem advance_counterexample:
  "lastTime \<lparr>goalUPS = - 100, rewinding = True, interpGameTime = 5,
             lastTime = Some 0, externalSeek = False\<rparr> = Some 0
   \<and> \<not> externalSeek \<lparr>goalUPS = - 100, rewinding = True, interpGameTime = 5,
             lastTime = Some 0, externalSeek = False\<rparr>
   \<and> \<bar>interpGameTime \<lparr>goalUPS = - 100, rewinding = True, interpGameTime = 5,
             lastTime = Some 0, externalSeek = False\<rparr> - of_int 5\<bar> < 10
   \<and> interpGameTime (fst (loop \<lparr>goalUPS = - 100, rewinding = True, interpGameTime = 5,
                       lastTime = Some 0, externalSeek = False\<rparr>
                      \<lparr>curTime = 16, turn = 5, seekTo = 0, confInterpolate = True,
                       turnRender = 5, deltasLength = 100, rendersTps = 60\<rparr>))
      \<noteq> 5 + (- 100) * (16 - 0) / 1000"
  by (simp add: loop_defs intent_defs)

text \<open>
  C2 (amended): for every goal speed and every pair of consecutive timestamps, if a
  previous tick is recorded, no seek is in flight, the rewind stop does not apply (not both
  \<open>rewinding\<close> and engine turn at most 10) and the drift is below 10, then after the tick the
  simulated time is its previous value plus speed times elapsed time over 1000 (exactly,
  over the reals), and that increment is what the update counter is fed.
\<close>

theorem advance_simulated_time:
  assumes "lastTime s = Some lt" and "\<not> externalSeek s"
    and "\<not> (rewinding s \<and> turn i \<le> 10)"
    and "\<bar>interpGameTime s - of_int (turn i)\<bar> < 10"
  shows "interpGameTime (fst (loop s i)) = interpGameTime s + goalUPS s * (curTime i - lt) / 1000
         \<and> delta (snd (loop s i)) = goalUPS s * (curTime i - lt) / 1000"
  using assms by (auto simp: loop_defs)

theorem advance_simulated_time_witness:
  "lastTime (onToggleForward (onToggleForward (fst (loop init
       \<lparr>curTime = 0, turn = 0, seekTo = 0, confInterpolate = True,
        turnRender = 0, deltasLength = 100, rendersTps = 60\<rparr>)))) = Some 0
   \<and> interpGameTime (fst (loop
       (onToggleForward (onToggleForward (fst (loop init
          \<lparr>curTime = 0, turn = 0, seekTo = 0, confInterpolate = True,
           turnRender = 0, deltasLength = 100, rendersTps = 60\<rparr>))))
       \<lparr>curTime = 1000, turn = 0, seekTo = 0, confInterpolate = True,
        turnRender = 0, deltasLength = 100, rendersTps = 60\<rparr>)) = 10"
  using advance_simulated_time [of
      "onToggleForward (onToggleForward (fst (loop init
          \<lparr>curTime = 0, turn = 0, seekTo = 0, confInterpolate = True,
           turnRender = 0, deltasLength = 100, rendersTps = 60\<rparr>)))" 0
      "\<lparr>curTime = 1000, turn = 0, seekTo = 0, confInterpolate = True,
        turnRender = 0, deltasLength = 100, rendersTps = 60\<rparr>"]
  by (simp add: init_def intent_defs loop_defs)

subsection \<open>C3: a seek freezes the simulated time until the engine arrives\<close>

text \<open>
  C3, as stated, fails on the first frame. A seek to turn 0 requested before the first
  call of \<^verbatim>\<open>loop\<close> (no previous tick recorded) is still in flight after that call, although
  the engine's current turn equals the target: the branch for the first frame comes before
  the branch that clears the flag.
\<close>

theorem seek_counterexample:
  "externalSeek (fst (onSeek 0 init))
   \<and> snd (onSeek 0 init) = 0
   \<and> turn \<lparr>curTime = 16, turn = 0, seekTo = 0, confInterpolate = True,
            turnRender = 0, deltasLength = 100, rendersTps = 60\<rparr> = 0
   \<and> externalSeek (fst (loop (fst (onSeek 0 init))
        \<lparr>curTime = 16, turn = 0, seekTo = 0, confInterpolate = True,
         turnRender = 0, deltasLength = 100, rendersTps = 60\<rparr>))"
  by (simp add: init_def intent_defs loop_defs)

text \<open>
  C3 (amended): for every target turn \<open>t\<close> and every state, the seek intent asks the
  engine to seek to \<open>t\<close>, sets the seek flag and sets the simulated time to \<open>t\<close>. Call a
  tick an arrival when the engine's current turn equals its seek target \<^verbatim>\<open>match.seekTo\<close>
  and the tick is not the first frame of the match (a previous tick is recorded). After
  any run \<open>ins\<close> of ticks that follows the intent, the flag is still set exactly when no
  tick of the run is an arrival: it is cleared on the first arrival and on no other tick.
  While the flag is set, and on the tick \<open>j\<close> that follows (the one that clears it
  included), the simulated time stays \<open>t\<close>. The tick \<open>n\<close> after the clearing tick advances
  normally: when the rewind stop does not apply and the drift is below 10, the simulated
  time becomes \<open>t\<close> plus goal speed times elapsed time over 1000.
\<close>

theorem seek_freeze_and_completion:
  "snd (onSeek t s) = t
   \<and> externalSeek (ticks (fst (onSeek t s)) ins)
       = (\<forall>k < length ins. (k = 0 \<and> lastTime s = None)
             \<or> turn (ins ! k) \<noteq> seekTo (ins ! k))
   \<and> (externalSeek (ticks (fst (onSeek t s)) ins) \<longrightarrow>
        interpGameTime (ticks (fst (onSeek t s)) ins) = of_int t
        \<and> interpGameTime (ticks (fst (onSeek t s)) (ins @ [j])) = of_int t)
   \<and> (externalSeek (ticks (fst (onSeek t s)) ins)
        \<and> \<not> externalSeek (ticks (fst (onSeek t s)) (ins @ [j]))
        \<and> \<not> (rewinding s \<and> turn n \<le> 10) \<and> \<bar>of_int t - of_int (turn n)\<bar> < (10::real)
        \<longrightarrow> interpGameTime (ticks (fst (onSeek t s)) (ins @ [j, n]))
              = of_int t + goalUPS s * (curTime n - curTime j) / 1000)"
proof -
  let ?s0 = "fst (onSeek t s)"
  have flag: "externalSeek ?s0" by (simp add: onSeek_def)
  have s0: "lastTime ?s0 = lastTime s" "interpGameTime ?s0 = of_int t"
    "goalUPS ?s0 = goalUPS s" "rewinding ?s0 = rewinding s"
    by (simp_all add: onSeek_def)
  note run = seek_run [OF flag, of ins, unfolded s0]
  have c2: "externalSeek (ticks ?s0 ins)
       = (\<forall>k < length ins. (k = 0 \<and> lastTime s = None)
             \<or> turn (ins ! k) \<noteq> seekTo (ins ! k))"
    using run by blast
  have frozen: "interpGameTime (ticks ?s0 ins) = of_int t
      \<and> goalUPS (ticks ?s0 ins) = goalUPS s \<and> rewinding (ticks ?s0 ins) = rewinding s"
    if "externalSeek (ticks ?s0 ins)"
    using run that by blast
  have after: "interpGameTime (ticks ?s0 (ins @ [j])) = of_int t
      \<and> goalUPS (ticks ?s0 (ins @ [j])) = goalUPS s
      \<and> rewinding (ticks ?s0 (ins @ [j])) = rewinding s"
    if e: "externalSeek (ticks ?s0 ins)"
    unfolding ticks_snoc using loop_frozen [OF e, of j] frozen [OF e] by simp
  have two: "ticks ?s0 (ins @ [j, n]) = fst (loop (ticks ?s0 (ins @ [j])) n)"
    by (simp add: ticks_def)
  have lj: "lastTime (ticks ?s0 (ins @ [j])) = Some (curTime j)"
    by (simp add: ticks_lastTime)
  have resume: "interpGameTime (ticks ?s0 (ins @ [j, n]))
                = of_int t + goalUPS s * (curTime n - curTime j) / 1000"
    if e: "externalSeek (ticks ?s0 ins)" and c: "\<not> externalSeek (ticks ?s0 (ins @ [j]))"
      and "\<not> (rewinding s \<and> turn n \<le> 10)" "\<bar>of_int t - of_int (turn n)\<bar> < (10::real)"
    unfolding two using that(3,4) c lj after [OF e] by (auto simp: loop_defs)
  show ?thesis using c2 frozen after resume by (simp add: onSeek_def)
qed

text \<open>
  Two runs. A restart (seek to turn 0) before the first frame: the first frame leaves the
  flag set although the engine is at turn 0, the second clears it, and 100 ms later the
  simulated time is 1. A seek to turn 50 after the first frame, at speed 10: the engine is
  at turn 20, then at 50, and the tick 100 ms after the arrival moves the simulated time
  to 51.
\<close>

theorem seek_freeze_and_completion_witness:
  "lastTime init = None
   \<and> externalSeek (ticks (fst (onSeek 0 init))
      [\<lparr>curTime = 16, turn = 0, seekTo = 0, confInterpolate = True,
        turnRender = 0, deltasLength = 100, rendersTps = 60\<rparr>])
   \<and> \<not> externalSeek (ticks (fst (onSeek 0 init))
      [\<lparr>curTime = 16, turn = 0, seekTo = 0, confInterpolate = True,
        turnRender = 0, deltasLength = 100, rendersTps = 60\<rparr>,
       \<lparr>curTime = 32, turn = 0, seekTo = 0, confInterpolate = True,
        turnRender = 0, deltasLength = 100, rendersTps = 60\<rparr>])
   \<and> interpGameTime (ticks (fst (onSeek 0 init))
      [\<lparr>curTime = 16, turn = 0, seekTo = 0, confInterpolate = True,
        turnRender = 0, deltasLength = 100, rendersTps = 60\<rparr>,
       \<lparr>curTime = 32, turn = 0, seekTo = 0, confInterpolate = True,
        turnRender = 0, deltasLength = 100, rendersTps = 60\<rparr>,
       \<lparr>curTime = 132, turn = 0, seekTo = 0, confInterpolate = True,
        turnRender = 0, deltasLength = 100, rendersTps = 60\<rparr>]) = 1
   \<and> externalSeek (ticks (fst (onSeek 50 (fst (loop init
        \<lparr>curTime = 0, turn = 0, seekTo = 0, confInterpolate = True,
         turnRender = 0, deltasLength = 100, rendersTps = 60\<rparr>))))
      [\<lparr>curTime = 16, turn = 20, seekTo = 50, confInterpolate = True,
        turnRender = 35, deltasLength = 100, rendersTps = 60\<rparr>])
   \<and> \<not> externalSeek (ticks (fst (onSeek 50 (fst (loop init
        \<lparr>curTime = 0, turn = 0, seekTo = 0, confInterpolate = True,
         turnRender = 0, deltasLength = 100, rendersTps = 60\<rparr>))))
      [\<lparr>curTime = 16, turn = 20, seekTo = 50, confInterpolate = True,
        turnRender = 35, deltasLength = 100, rendersTps = 60\<rparr>,
       \<lparr>curTime = 32, turn = 50, seekTo = 50, confInterpolate = True,
        turnRender = 50, deltasLength = 100, rendersTps = 60\<rparr>])
   \<and> interpGameTime (ticks (fst (onSeek 50 (fst (loop init
        \<lparr>curTime = 0, turn = 0, seekTo = 0, confInterpolate = True,
         turnRender = 0, deltasLength = 100, rendersTps = 60\<rparr>))))
      [\<lparr>curTime = 16, turn = 20, seekTo = 50, confInterpolate = True,
        turnRender = 35, deltasLength = 100, rendersTps = 60\<rparr>,
       \<lparr>curTime = 32, turn = 50, seekTo = 50, confInterpolate = True,
        turnRender = 50, deltasLength = 100, rendersTps = 60\<rparr>,
       \<lparr>curTime = 132, turn = 50, seekTo = 50, confInterpolate = True,
        turnRender = 50, deltasLength = 100, rendersTps = 60\<rparr>]) = 51"
  using seek_freeze_and_completion [of 0 init
      "[\<lparr>curTime = 16, turn = 0, seekTo = 0, confInterpolate = True,
        turnRender = 0, deltasLength = 100, rendersTps = 60\<rparr>]"
      "\<lparr>curTime = 32, turn = 0, seekTo = 0, confInterpolate = True,
        turnRender = 0, deltasLength = 100, rendersTps = 60\<rparr>"
      "\<lparr>curTime = 132, turn = 0, seekTo = 0, confInterpolate = True,
        turnRender = 0, deltasLength = 100, rendersTps = 60\<rparr>"]
    seek_freeze_and_completion [of 50
      "fst (loop init
        \<lparr>curTime = 0, turn = 0, seekTo = 0, confInterpolate = True,
         turnRender = 0, deltasLength = 100, rendersTps = 60\<rparr>)"
      "[\<lparr>curTime = 16, turn = 20, seekTo = 50, confInterpolate = True,
        turnRender = 35, deltasLength = 100, rendersTps = 60\<rparr>]"
      "\<lparr>curTime = 32, turn = 50, seekTo = 50, confInterpolate = True,
        turnRender = 50, deltasLength = 100, rendersTps = 60\<rparr>"
      "\<lparr>curTime = 132, turn = 50, seekTo = 50, confInterpolate = True,
        turnRender = 50, deltasLength = 100, rendersTps = 60\<rparr>"]
  by (simp add: init_def loop_defs intent_defs ticks_def)

subsection \<open>C4: when an interpolated frame is rendered\<close>

text \<open>
  C4: for every state and every tick, the frame rendered is an interpolated one exactly
  when interpolation is enabled, the turn after the engine's current one is below the number
  of loaded deltas, and the goal speed is below the measured render rate. So the frame is
  exact whenever current turn + 1 reaches the number of deltas, whenever the goal speed is
  at least the render rate, and whenever interpolation is disabled, whatever the other
  values are.
\<close>

theorem interpolation_gating:
  "(frame (snd (loop s i)) \<noteq> Exact)
     = (confInterpolate i \<and> turnRender i + 1 < deltasLength i
        \<and> goalUPS (fst (loop s i)) < rendersTps i)
   \<and> (deltasLength i \<le> turnRender i + 1 \<longrightarrow> frame (snd (loop s i)) = Exact)
   \<and> (rendersTps i \<le> goalUPS (fst (loop s i)) \<longrightarrow> frame (snd (loop s i)) = Exact)
   \<and> (\<not> confInterpolate i \<longrightarrow> frame (snd (loop s i)) = Exact)"
  by (auto simp: loop_def render_def Let_def split: prod.splits)

text \<open>
  At speed 10 and 60 frames per second: no frame to interpolate to at turn 99 of 100
  deltas; at speed 300 (fast forward) the frame is exact as well.
\<close>

theorem interpolation_gating_witness:
  "frame (snd (loop init \<lparr>curTime = 0, turn = 99, seekTo = 0, confInterpolate = True,
                          turnRender = 99, deltasLength = 100, rendersTps = 60\<rparr>)) = Exact
   \<and> frame (snd (loop (onToggleForward init)
                      \<lparr>curTime = 0, turn = 5, seekTo = 0, confInterpolate = True,
                       turnRender = 5, deltasLength = 100, rendersTps = 60\<rparr>)) = Exact
   \<and> frame (snd (loop init \<lparr>curTime = 0, turn = 5, seekTo = 0, confInterpolate = True,
                          turnRender = 5, deltasLength = 100, rendersTps = 60\<rparr>)) \<noteq> Exact"
  using interpolation_gating [of init
          "\<lparr>curTime = 0, turn = 99, seekTo = 0, confInterpolate = True,
            turnRender = 99, deltasLength = 100, rendersTps = 60\<rparr>"]
        interpolation_gating [of "onToggleForward init"
          "\<lparr>curTime = 0, turn = 5, seekTo = 0, confInterpolate = True,
            turnRender = 5, deltasLength = 100, rendersTps = 60\<rparr>"]
        interpolation_gating [of init
          "\<lparr>curTime = 0, turn = 5, seekTo = 0, confInterpolate = True,
            turnRender = 5, deltasLength = 100, rendersTps = 60\<rparr>"]
  by (simp add: init_def loop_defs intent_defs)

subsection \<open>C5: the lerp fraction\<close>

text \<open>
  C5, as stated, fails: the fraction is \<^verbatim>\<open>Math.min(interpGameTime - match.current.turn, 1)\<close>,
  with no lower bound. While rewinding, a tick that moves the simulated time from 48 to 46
  and finds the engine at turn 49 after its computation gives the renderer the fraction
  -3; clamped to the interval from 0 to 1 it would be 0.
\<close>

theorem lerp_counterexample:
  "frame (snd (loop \<lparr>goalUPS = - 100, rewinding = True, interpGameTime = 48,
                      lastTime = Some 0, externalSeek = False\<rparr>
                     \<lparr>curTime = 20, turn = 50, seekTo = 50, confInterpolate = True,
                      turnRender = 49, deltasLength = 100, rendersTps = 60\<rparr>))
     = Interpolated (- 3)
   \<and> max 0 (min (interpGameTime (fst (loop \<lparr>goalUPS = - 100, rewinding = True,
                      interpGameTime = 48, lastTime = Some 0, externalSeek = False\<rparr>
                     \<lparr>curTime = 20, turn = 50, seekTo = 50, confInterpolate = True,
                      turnRender = 49, deltasLength = 100, rendersTps = 60\<rparr>)) - 49) 1)
     = (0 :: real)"
  by (simp add: loop_defs toInt32_def)

text \<open>
  C5 (amended): on every tick that renders an interpolated frame, the fraction passed to
  the renderer is the minimum of 1 and simulated time minus the engine's current turn. It
  is at most 1, and it is at least 0 exactly when the simulated time is not below the
  current turn; there it equals the fraction clamped to the interval from 0 to 1.
\<close>

theorem lerp_fraction:
  assumes "frame (snd (loop s i)) = Interpolated l"
  shows "l = min (interpGameTime (fst (loop s i)) - of_int (turnRender i)) 1
         \<and> l \<le> 1
         \<and> (0 \<le> l) = (of_int (turnRender i) \<le> interpGameTime (fst (loop s i)))
         \<and> (of_int (turnRender i) \<le> interpGameTime (fst (loop s i))
              \<longrightarrow> l = max 0 (min (interpGameTime (fst (loop s i)) - of_int (turnRender i)) 1))"
  using assms by (auto simp: loop_def render_def Let_def split: prod.splits if_splits)

theorem lerp_fraction_witness:
  "frame (snd (loop \<lparr>goalUPS = 10, rewinding = False, interpGameTime = 7,
                      lastTime = Some 0, externalSeek = False\<rparr>
                     \<lparr>curTime = 40, turn = 7, seekTo = 7, confInterpolate = True,
                      turnRender = 7, deltasLength = 100, rendersTps = 60\<rparr>))
     = Interpolated (2 / 5)
   \<and> (2 / 5 :: real) = max 0 (min (37 / 5 - 7) 1)"
  using lerp_fraction [of "\<lparr>goalUPS = 10, rewinding = False, interpGameTime = 7,
                      lastTime = Some 0, externalSeek = False\<rparr>"
                     "\<lparr>curTime = 40, turn = 7, seekTo = 7, confInterpolate = True,
                      turnRender = 7, deltasLength = 100, rendersTps = 60\<rparr>" "2 / 5"]
  by (simp add: loop_defs toInt32_def)

subsection \<open>C6: the turn the engine is asked to seek to\<close>

text \<open>
  C6, as stated, fails for negative simulated times: \<^verbatim>\<open>interpGameTime | 0\<close> rounds toward
  zero. Rewinding at -100 turns per second from simulated time 1.5 for 50 ms, with the
  engine at turn 11, gives the simulated time -3.5; the engine is asked for turn -3, and
  the floor is -4.
\<close>

theorem seek_target_counterexample:
  "seekCall (snd (loop \<lparr>goalUPS = - 100, rewinding = True, interpGameTime = 3 / 2,
                         lastTime = Some 0, externalSeek = False\<rparr>
                        \<lparr>curTime = 50, turn = 11, seekTo = 11, confInterpolate = True,
                         turnRender = 11, deltasLength = 100, rendersTps = 60\<rparr>)) = Some (- 3)
   \<and> \<lfloor>interpGameTime (fst (loop \<lparr>goalUPS = - 100, rewinding = True, interpGameTime = 3 / 2,
                         lastTime = Some 0, externalSeek = False\<rparr>
                        \<lparr>curTime = 50, turn = 11, seekTo = 11, confInterpolate = True,
                         turnRender = 11, deltasLength = 100, rendersTps = 60\<rparr>))\<rfloor> = - 4"
  by (simp add: loop_defs toInt32_def)

text \<open>
  C6 (amended): on every tick that advances the simulated time (a previous tick recorded,
  no seek in flight, no rewind stop, drift below 10), the turn the engine is asked to seek
  to is the new simulated time converted by \<^verbatim>\<open>| 0\<close>. It is the floor of the simulated time
  when that is at least 0 and below \<open>2^31\<close>, and its ceiling (rounding toward zero) when
  it is negative and at least \<open>-2^31\<close>.
\<close>

theorem seek_target:
  assumes "lastTime s \<noteq> None" and "\<not> externalSeek s"
    and "\<not> (rewinding s \<and> turn i \<le> 10)"
    and "\<bar>interpGameTime s - of_int (turn i)\<bar> < 10"
  shows "seekCall (snd (loop s i)) = Some (toInt32 (interpGameTime (fst (loop s i))))
         \<and> (0 \<le> interpGameTime (fst (loop s i)) \<and> interpGameTime (fst (loop s i)) < 2 ^ 31
              \<longrightarrow> seekCall (snd (loop s i)) = Some \<lfloor>interpGameTime (fst (loop s i))\<rfloor>)
         \<and> (- (2 ^ 31) \<le> interpGameTime (fst (loop s i)) \<and> interpGameTime (fst (loop s i)) < 0
              \<longrightarrow> seekCall (snd (loop s i)) = Some \<lceil>interpGameTime (fst (loop s i))\<rceil>)"
proof -
  from assms obtain lt where lt: "lastTime s = Some lt" by auto
  have sk: "seekCall (snd (loop s i)) = Some (toInt32 (interpGameTime (fst (loop s i))))"
    using assms lt by (auto simp: loop_defs)
  show ?thesis using sk toInt32_nonneg toInt32_neg by simp
qed

text \<open>Playing at speed 10 from turn 7 for 40 ms: simulated time 7.4, seek to turn 7.\<close>

theorem seek_target_witness:
  "interpGameTime (fst (loop \<lparr>goalUPS = 10, rewinding = False, interpGameTime = 7,
                      lastTime = Some 0, externalSeek = False\<rparr>
                     \<lparr>curTime = 40, turn = 7, seekTo = 7, confInterpolate = True,
                      turnRender = 7, deltasLength = 100, rendersTps = 60\<rparr>)) = 37 / 5
   \<and> seekCall (snd (loop \<lparr>goalUPS = 10, rewinding = False, interpGameTime = 7,
                      lastTime = Some 0, externalSeek = False\<rparr>
                     \<lparr>curTime = 40, turn = 7, seekTo = 7, confInterpolate = True,
                      turnRender = 7, deltasLength = 100, rendersTps = 60\<rparr>)) = Some 7"
  using seek_target [of "\<lparr>goalUPS = 10, rewinding = False, interpGameTime = 7,
                      lastTime = Some 0, externalSeek = False\<rparr>"
                     "\<lparr>curTime = 40, turn = 7, seekTo = 7, confInterpolate = True,
                      turnRender = 7, deltasLength = 100, rendersTps = 60\<rparr>"]
  by (simp add: loop_defs toInt32_def)

subsection \<open>C7: seek targets out of range\<close>

text \<open>
  C7, as stated, fails: neither \<^verbatim>\<open>onSeek\<close> nor the timeline handler clamps. A seek to turn
  -5 asks the engine for turn -5 and sets the simulated time to -5; a pointer position of
  -2 on a timeline of width 400 with 100 turns computed asks for turn -1.
\<close>

theorem invalid_seek_counterexample:
  "snd (onSeek (- 5) init) = - 5
   \<and> interpGameTime (fst (onSeek (- 5) init)) = - 5
   \<and> snd (timelineMouseDown 100 (- 2) 400 init) = - 1"
  by (simp add: init_def intent_defs)

text \<open>
  C7 (amended): for every seek target, in range or not, the controller passes the target
  to the engine's seek as it is, sets the simulated time to it and sets the seek flag;
  the timeline handler (canvas width not zero) does the same with the floor of farthest
  turn times pointer position over canvas width. The tick that follows returns a state,
  keeps the simulated time at the target and asks the engine for no further seek.
\<close>

theorem invalid_seek:
  "snd (onSeek t s) = t
   \<and> interpGameTime (fst (onSeek t s)) = of_int t
   \<and> externalSeek (fst (onSeek t s))
   \<and> (maxWidth \<noteq> 0 \<longrightarrow>
        snd (timelineMouseDown farthest offsetX maxWidth s)
          = \<lfloor>of_int farthest * offsetX / maxWidth\<rfloor>
        \<and> interpGameTime (fst (timelineMouseDown farthest offsetX maxWidth s))
          = of_int \<lfloor>of_int farthest * offsetX / maxWidth\<rfloor>
        \<and> externalSeek (fst (timelineMouseDown farthest offsetX maxWidth s)))
   \<and> interpGameTime (fst (loop (fst (onSeek t s)) i)) = of_int t
   \<and> seekCall (snd (loop (fst (onSeek t s)) i)) = None"
  by (auto simp: intent_defs loop_defs split: option.splits)

text \<open>
  With 100 turns computed: a seek to turn 5000 is passed on as 5000, and a pointer
  position of 500 on a timeline of width 400 asks for turn 125.
\<close>

theorem invalid_seek_witness:
  "snd (onSeek 5000 init) = 5000
   \<and> interpGameTime (fst (onSeek 5000 init)) = 5000
   \<and> (400 :: real) \<noteq> 0
   \<and> snd (timelineMouseDown 100 500 400 init) = 125
   \<and> interpGameTime (fst (loop (fst (onSeek 5000 init))
        \<lparr>curTime = 16, turn = 99, seekTo = 99, confInterpolate = True,
         turnRender = 99, deltasLength = 100, rendersTps = 60\<rparr>)) = 5000"
  using invalid_seek [of 5000 init 400 100 500
        "\<lparr>curTime = 16, turn = 99, seekTo = 99, confInterpolate = True,
         turnRender = 99, deltasLength = 100, rendersTps = 60\<rparr>"]
  by (simp add: init_def)

subsection \<open>C8: toggling twice\<close>

text \<open>
  C8, as stated, fails: from fast forward (speed 300) two pause toggles end at speed 10,
  and from pause (speed 0) two fast-forward toggles end at speed 10.
\<close>

theorem toggle_twice_counterexample:
  "goalUPS (onToggleForward init) = 300
   \<and> goalUPS (onTogglePause (onTogglePause (onToggleForward init))) = 10
   \<and> goalUPS (onTogglePause init) = 0
   \<and> goalUPS (onToggleForward (onToggleForward (onTogglePause init))) = 10"
  by (simp add: init_def intent_defs)

text \<open>
  C8 (amended): two pause toggles in succession return the goal speed to its value before
  the first one exactly when that value is 0 or the default rate 10; two fast-forward
  toggles do so exactly when it is 10 or the fast rate 300. From any other speed the two
  toggles end at 10. After one toggle of a control, two more toggles of the same control
  always return the goal speed to its value after the first.
\<close>

theorem toggle_twice:
  "(goalUPS (onTogglePause (onTogglePause s)) = goalUPS s) = (goalUPS s = 0 \<or> goalUPS s = 10)
   \<and> (goalUPS (onToggleForward (onToggleForward s)) = goalUPS s)
       = (goalUPS s = 10 \<or> goalUPS s = 300)
   \<and> goalUPS (onTogglePause (onTogglePause (onTogglePause s))) = goalUPS (onTogglePause s)
   \<and> goalUPS (onToggleForward (onToggleForward (onToggleForward s)))
       = goalUPS (onToggleForward s)
   \<and> goalUPS (onTogglePause (onTogglePause s)) = (if goalUPS s = 0 then 0 else 10)
   \<and> goalUPS (onToggleForward (onToggleForward s)) = (if goalUPS s = 300 then 300 else 10)"
  by (auto simp: intent_defs)

text \<open>Pause and resume from the default speed; fast forward and back.\<close>

theorem toggle_twice_witness:
  "goalUPS (onTogglePause (onTogglePause init)) = goalUPS init
   \<and> goalUPS (onToggleForward (onToggleForward init)) = goalUPS init
   \<and> goalUPS init = 10"
  using toggle_twice [of init] by (simp add: init_def)

subsection \<open>C9: the rewinding flag and the rewind rate\<close>

text \<open>
  C9: in every state reached from the initial one by any sequence of intents (pause,
  fast forward, rewind, seek, restart, timeline click) and ticks, \<open>rewinding\<close> is true
  exactly when the goal speed is -100; and every single transition preserves this
  equivalence.
\<close>

theorem rewind_flag_invariant:
  "rewind_inv (run init evs) \<and> (rewind_inv s \<longrightarrow> rewind_inv (step s e))"
  by (simp add: run_def rewind_inv_foldl rewind_inv_init rewind_inv_step)

theorem rewind_flag_invariant_witness:
  "rewind_inv (run init [ToggleRewind, TogglePause, ToggleRewind])
   \<and> rewinding (run init [ToggleRewind, TogglePause, ToggleRewind])
   \<and> rewind_inv (onToggleForward init)
   \<and> rewind_inv (step (onToggleForward init) ToggleRewind)
   \<and> rewinding (step (onToggleForward init) ToggleRewind)"
  using rewind_flag_invariant [of "[ToggleRewind, TogglePause, ToggleRewind]"
           "onToggleForward init" ToggleRewind]
  by (simp add: run_def rewind_inv_def init_def intent_defs)

subsection \<open>C10: the configuration defaults\<close>

text \<open>
  C10: for every supplied value, both versions of \<^verbatim>\<open>defaults\<close> return a configuration (no
  property read throws), and every option read with \<^verbatim>\<open>||\<close> whose supplied value is falsy
  (\<^verbatim>\<open>undefined\<close>, \<^verbatim>\<open>null\<close>, \<^verbatim>\<open>false\<close>, \<^verbatim>\<open>0\<close>, \<^verbatim>\<open>NaN\<close>, the empty string) has the built-in
  default. In the longer version \<^verbatim>\<open>interpolate\<close> is \<^verbatim>\<open>true\<close> and the other four flags have
  their built-in values, whatever is supplied.
\<close>

theorem defaults_falsy_coalescing:
  "(\<exists>c. defaults supplied = Some c
      \<and> (\<forall>v. getprop (js_or supplied (JObj [])) ''gameVersion'' = Some v \<and> \<not> truthy v
             \<longrightarrow> gameVersion c = JStr ''ANY'')
      \<and> (\<forall>v. getprop (js_or supplied (JObj [])) ''fullscreen'' = Some v \<and> \<not> truthy v
             \<longrightarrow> fullscreen c = JBool False)
      \<and> (\<forall>v. getprop (js_or supplied (JObj [])) ''width'' = Some v \<and> \<not> truthy v
             \<longrightarrow> width c = JNum 600)
      \<and> (\<forall>v. getprop (js_or supplied (JObj [])) ''height'' = Some v \<and> \<not> truthy v
             \<longrightarrow> height c = JNum 600)
      \<and> (\<forall>v. getprop (js_or supplied (JObj [])) ''defaultTPS'' = Some v \<and> \<not> truthy v
             \<longrightarrow> defaultTPS c = JNum 20))
   \<and> (\<exists>c. defaults_full supplied = Some c
      \<and> (\<forall>v. getprop (js_or supplied (JObj [])) ''gameVersion'' = Some v \<and> \<not> truthy v
             \<longrightarrow> gameVersion c = JStr ''ANY'')
      \<and> (\<forall>v. getprop (js_or supplied (JObj [])) ''fullscreen'' = Some v \<and> \<not> truthy v
             \<longrightarrow> fullscreen c = JBool False)
      \<and> (\<forall>v. getprop (js_or supplied (JObj [])) ''width'' = Some v \<and> \<not> truthy v
             \<longrightarrow> width c = JNum 600)
      \<and> (\<forall>v. getprop (js_or supplied (JObj [])) ''height'' = Some v \<and> \<not> truthy v
             \<longrightarrow> height c = JNum 600)
      \<and> (\<forall>v. getprop (js_or supplied (JObj [])) ''defaultTPS'' = Some v \<and> \<not> truthy v
             \<longrightarrow> defaultTPS c = JNum 20)
      \<and> (\<forall>v. getprop (js_or supplied (JObj [])) ''websocketURL'' = Some v \<and> \<not> truthy v
             \<longrightarrow> websocketURL c = JNull)
      \<and> (\<forall>v. getprop (js_or supplied (JObj [])) ''pollEvery'' = Some v \<and> \<not> truthy v
             \<longrightarrow> pollEvery c = JNum 500)
      \<and> interpolate c = JBool True
      \<and> healthBars c = JBool True \<and> circleBots c = JBool False \<and> indicators c = JBool True
      \<and> inGameMode c = JBool True \<and> inHelpMode c = JBool False)"
proof -
  obtain gv where gv: "getprop (js_or supplied (JObj [])) ''gameVersion'' = Some gv"
    using getprop_coerced by blast
  obtain fs where fs: "getprop (js_or supplied (JObj [])) ''fullscreen'' = Some fs"
    using getprop_coerced by blast
  obtain w where w: "getprop (js_or supplied (JObj [])) ''width'' = Some w"
    using getprop_coerced by blast
  obtain h where h: "getprop (js_or supplied (JObj [])) ''height'' = Some h"
    using getprop_coerced by blast
  obtain tps where tps: "getprop (js_or supplied (JObj [])) ''defaultTPS'' = Some tps"
    using getprop_coerced by blast
  obtain url where url: "getprop (js_or supplied (JObj [])) ''websocketURL'' = Some url"
    using getprop_coerced by blast
  obtain pe where pe: "getprop (js_or supplied (JObj [])) ''pollEvery'' = Some pe"
    using getprop_coerced by blast
  have small: "defaults supplied =
      Some \<lparr>gameVersion = js_or gv (JStr ''ANY''), fullscreen = js_or fs (JBool False),
            width = js_or w (JNum 600), height = js_or h (JNum 600),
            defaultTPS = js_or tps (JNum 20)\<rparr>"
    unfolding defaults_def Let_def gv fs w h tps by simp
  have full: "defaults_full supplied =
      Some \<lparr>gameVersion = js_or gv (JStr ''ANY''), fullscreen = js_or fs (JBool False),
            width = js_or w (JNum 600), height = js_or h (JNum 600),
            defaultTPS = js_or tps (JNum 20), websocketURL = js_or url JNull,
            pollEvery = js_or pe (JNum 500), interpolate = JBool True,
            healthBars = JBool True, circleBots = JBool False, indicators = JBool True,
            inGameMode = JBool True, inHelpMode = JBool False\<rparr>"
    unfolding defaults_full_def Let_def gv fs w h tps url pe by simp
  show ?thesis
    unfolding small full gv fs w h tps url pe by (simp add: js_or_def)
qed

text \<open>
  \<^verbatim>\<open>defaults({width: 0}).width\<close> is 600, \<^verbatim>\<open>defaults({defaultTPS: 0}).defaultTPS\<close> is 20,
  in both versions; the longer version returns \<^verbatim>\<open>interpolate\<close> true for
  \<^verbatim>\<open>{interpolate: false}\<close>; and \<^verbatim>\<open>defaults()\<close> returns the built-in values.
\<close>

theorem defaults_falsy_coalescing_witness:
  "(\<exists>c. defaults (JObj [(''width'', JNum 0)]) = Some c \<and> width c = JNum 600)
   \<and> (\<exists>c. defaults_full (JObj [(''width'', JNum 0)]) = Some c \<and> width c = JNum 600)
   \<and> (\<exists>c. defaults (JObj [(''defaultTPS'', JNum 0)]) = Some c \<and> defaultTPS c = JNum 20)
   \<and> (\<exists>c. defaults_full (JObj [(''defaultTPS'', JNum 0)]) = Some c \<and> defaultTPS c = JNum 20)
   \<and> (\<exists>c. defaults_full (JObj [(''interpolate'', JBool False)]) = Some c
          \<and> interpolate c = JBool True)
   \<and> (\<exists>c. defaults JUndefined = Some c \<and> gameVersion c = JStr ''ANY''
          \<and> fullscreen c = JBool False \<and> height c = JNum 600)"
  using defaults_falsy_coalescing [of "JObj [(''width'', JNum 0)]"]
        defaults_falsy_coalescing [of "JObj [(''defaultTPS'', JNum 0)]"]
        defaults_falsy_coalescing [of "JObj [(''interpolate'', JBool False)]"]
        defaults_falsy_coalescing [of JUndefined]
  by (auto simp: js_or_def)

end
